theory Spec2Isabelle
  imports Complex_Main "HOL-Library.AList"
begin

section \<open>JavaScript values\<close>

text \<open>
  The dashboard is untyped JavaScript: every payload that arrives on the socket and every
  piece of React state is an arbitrary JavaScript value. The state is therefore modelled
  over a datatype of JSON-like values and not over typed records, so that a payload of the
  wrong shape is an input of the model as it is an input of the code.

  A number is modelled by the value its decimal text denotes (\<open>Fin r\<close>), or one of the
  three special values. Rounding to binary64 is not modelled. Strings are lists of
  8-bit characters. An object is an association list of its own enumerable properties in
  insertion order.
\<close>

datatype jsnum = NaN | PosInfinity | NegInfinity | Fin rat

datatype jsval =
    JUndefined
  | JNull
  | JBool bool
  | JNum jsnum
  | JStr string
  | JArr "jsval list"
  | JObj "(string \<times> jsval) list"

datatype js_error = TypeError

text \<open>ToBoolean, as used by \<open>!x\<close>, \<open>x ? a : b\<close>, \<open>if (x)\<close> and \<open>x && y\<close>.\<close>

fun truthy :: "jsval \<Rightarrow> bool" where
  "truthy JUndefined = False"
| "truthy JNull = False"
| "truthy (JBool b) = b"
| "truthy (JNum NaN) = False"
| "truthy (JNum (Fin r)) = (r \<noteq> 0)"
| "truthy (JNum _) = True"
| "truthy (JStr s) = (s \<noteq> [])"
| "truthy (JArr _) = True"
| "truthy (JObj _) = True"

text \<open>The \<open>typeof\<close> operator.\<close>

fun typeof :: "jsval \<Rightarrow> string" where
  "typeof JUndefined = ''undefined''"
| "typeof JNull = ''object''"
| "typeof (JBool _) = ''boolean''"
| "typeof (JNum _) = ''number''"
| "typeof (JStr _) = ''string''"
| "typeof (JArr _) = ''object''"
| "typeof (JObj _) = ''object''"

text \<open>Decimal text of an array index, for the keys that object spread gives to the
  elements of an array or the characters of a string.\<close>

fun index_key :: "nat \<Rightarrow> string" where
  "index_key n =
     (if n < 10 then [char_of (48 + n)]
      else index_key (n div 10) @ [char_of (48 + n mod 10)])"

declare index_key.simps [simp del]

text \<open>
  Property read \<open>v.k\<close>. Reading a property of \<open>undefined\<close> or \<open>null\<close> throws a
  TypeError; a missing property reads as \<open>undefined\<close>. Arrays and strings have a
  \<open>length\<close> and their index keys. Inherited (prototype) properties are not modelled:
  the dashboard reads none of them apart from the method \<open>toFixed\<close>, which has its own
  definition below.
\<close>

definition own_props :: "jsval \<Rightarrow> (string \<times> jsval) list" where
  "own_props v =
     (case v of
        JObj kvs \<Rightarrow> kvs
      | JArr xs \<Rightarrow> zip (map index_key [0 ..< length xs]) xs
      | JStr s \<Rightarrow> zip (map index_key [0 ..< length s]) (map (\<lambda>c. JStr [c]) s)
      | _ \<Rightarrow> [])"

definition get_prop :: "jsval \<Rightarrow> string \<Rightarrow> js_error + jsval" where
  "get_prop v k =
     (case v of
        JUndefined \<Rightarrow> Inl TypeError
      | JNull \<Rightarrow> Inl TypeError
      | JArr xs \<Rightarrow>
          Inr (if k = ''length'' then JNum (Fin (of_nat (length xs)))
               else (case map_of (own_props v) k of Some x \<Rightarrow> x | None \<Rightarrow> JUndefined))
      | JStr s \<Rightarrow>
          Inr (if k = ''length'' then JNum (Fin (of_nat (length s)))
               else (case map_of (own_props v) k of Some x \<Rightarrow> x | None \<Rightarrow> JUndefined))
      | _ \<Rightarrow> Inr (case map_of (own_props v) k of Some x \<Rightarrow> x | None \<Rightarrow> JUndefined))"

text \<open>Sequencing of computations that may throw.\<close>

definition bind_err :: "js_error + 'a \<Rightarrow> ('a \<Rightarrow> js_error + 'b) \<Rightarrow> js_error + 'b" where
  "bind_err m f = (case m of Inl e \<Rightarrow> Inl e | Inr x \<Rightarrow> f x)"

subsection \<open>parseFloat\<close>

text \<open>
  The global \<open>parseFloat\<close> on a string: leading white space is skipped, the longest
  prefix that is a decimal literal (optional sign, then \<open>Infinity\<close> or digits with an
  optional fraction and an optional exponent) is read, and the result is \<open>NaN\<close> when
  there is no such prefix. Two limits of the model: only the six ASCII white-space
  characters are skipped (JavaScript also skips the Unicode ones), and the value is the
  exact decimal value, so a literal beyond the binary64 range such as \<open>1e400\<close> is
  not turned into \<open>Infinity\<close>.
\<close>

definition is_digit :: "char \<Rightarrow> bool" where
  "is_digit c = (48 \<le> (of_char c :: nat) \<and> (of_char c :: nat) \<le> 57)"

definition is_space :: "char \<Rightarrow> bool" where
  "is_space c = (c \<in> set [CHR '' '', CHR 0x09, CHR 0x0A, CHR 0x0B, CHR 0x0C, CHR 0x0D])"

definition digits_value :: "string \<Rightarrow> nat" where
  "digits_value ds = foldl (\<lambda>a c. 10 * a + (of_char c - 48)) 0 ds"

definition pow10 :: "int \<Rightarrow> rat" where
  "pow10 e = (if 0 \<le> e then 10 ^ nat e else 1 / 10 ^ nat (- e))"

definition take_sign :: "string \<Rightarrow> bool \<times> string" where
  "take_sign s =
     (case s of
        c # r \<Rightarrow> if c = CHR ''-'' then (True, r) else if c = CHR ''+'' then (False, r) else (False, s)
      | [] \<Rightarrow> (False, s))"

definition exponent_part :: "string \<Rightarrow> int" where
  "exponent_part s =
     (case s of
        c # r \<Rightarrow>
          if c = CHR ''e'' \<or> c = CHR ''E'' then
            (let (neg, r') = take_sign r; ds = takeWhile is_digit r'
             in if ds = [] then 0
                else if neg then - int (digits_value ds) else int (digits_value ds))
          else 0
      | [] \<Rightarrow> 0)"

definition parseFloat :: "string \<Rightarrow> jsnum" where
  "parseFloat input =
     (let (neg, s) = take_sign (dropWhile is_space input) in
      if take 8 s = ''Infinity'' then (if neg then NegInfinity else PosInfinity)
      else
        (let ip = takeWhile is_digit s;
             r1 = dropWhile is_digit s;
             fp = (case r1 of c # r \<Rightarrow> if c = CHR ''.'' then takeWhile is_digit r else [] | [] \<Rightarrow> []);
             r2 = (case r1 of c # r \<Rightarrow> if c = CHR ''.'' then dropWhile is_digit r else r1 | [] \<Rightarrow> [])
         in if ip = [] \<and> fp = [] then NaN
            else
              (let m = of_nat (digits_value ip) + of_nat (digits_value fp) / 10 ^ length fp;
                   v = m * pow10 (exponent_part r2)
               in Fin (if neg then - v else v))))"


section \<open>The application state (App.jsx)\<close>

text \<open>
  The socket.io client object, as far as \<open>App\<close> uses it: the address it was created
  for, its \<open>connected\<close> property (written by the transport library, never by \<open>App\<close>),
  and the log of the \<open>emit\<close> calls made on it, oldest first.
\<close>

record socket =
  url :: string
  sock_connected :: bool
  emitted :: "(string \<times> jsval) list"

definition io :: "string \<Rightarrow> socket" where
  "io address = \<lparr>url = address, sock_connected = False, emitted = []\<rparr>"

definition emit :: "string \<Rightarrow> jsval \<Rightarrow> socket \<Rightarrow> socket" where
  "emit ev payload k = k\<lparr>emitted := emitted k @ [(ev, payload)]\<rparr>"

text \<open>The six \<open>useState\<close> cells of \<open>App\<close>.\<close>

record app_state =
  params :: jsval
  orderbook :: jsval
  analyticsResult :: jsval
  connected :: jsval
  error :: jsval
  socket :: "socket option"

definition initial_state :: app_state where
  "initial_state =
     \<lparr>params = JObj [(''exchange'', JStr ''OKX''),
                     (''symbol'', JStr ''BTC-USDT-SWAP''),
                     (''order_type'', JStr ''market''),
                     (''quantity'', JNum (Fin 100)),
                     (''volatility'', JNum (Fin (3 / 10))),
                     (''fee_tier'', JStr ''VIP0'')],
      orderbook = JNull,
      analyticsResult = JNull,
      connected = JBool False,
      error = JNull,
      socket = None\<rparr>"

subsection \<open>Creating the connection\<close>

text \<open>
  The first effect of \<open>App\<close>: \<open>const newSocket = io('import.meta.env.VITE_SOCKET_URL');
  setSocket(newSocket)\<close>. The argument of \<open>io\<close> is a quoted string literal. The
  environment \<open>import.meta.env\<close> is a parameter of the model, as it is in scope in the
  source; the source does not read it.
\<close>

type_synonym env = "string \<rightharpoonup> string"

definition initSocket :: "env \<Rightarrow> app_state \<Rightarrow> app_state" where
  "initSocket import_meta_env s = s\<lparr>socket := Some (io ''import.meta.env.VITE_SOCKET_URL'')\<rparr>"

subsection \<open>Inbound events\<close>

text \<open>The eight events \<open>App\<close> subscribes to with \<open>socket.on\<close>, with their payloads.\<close>

datatype event =
    Connect
  | Disconnect
  | ConnectError jsval
  | OrderbookUpdate jsval
  | AnalyticsUpdate jsval
  | ConnectionStatus jsval
  | Error jsval
  | ParameterUpdate jsval

text \<open>
  The body of each handler. The second effect of \<open>App\<close> registers the handlers once
  the socket exists (\<open>if (!socket) return\<close>), so events arrive only in states that
  have a socket. A handler that throws (a property read on \<open>null\<close> or
  \<open>undefined\<close>) throws while its argument is evaluated, before the state setter
  is called.
\<close>

fun on_event :: "event \<Rightarrow> app_state \<Rightarrow> js_error + app_state" where
  "on_event Connect s = Inr (s\<lparr>connected := JBool True, error := JNull\<rparr>)"
| "on_event Disconnect s = Inr (s\<lparr>connected := JBool False\<rparr>)"
| "on_event (ConnectError err) s =
     Inr (s\<lparr>error := JStr ''WebSocket connection failed'', connected := JBool False\<rparr>)"
| "on_event (OrderbookUpdate data) s = Inr (s\<lparr>orderbook := data\<rparr>)"
| "on_event (AnalyticsUpdate data) s = Inr (s\<lparr>analyticsResult := data\<rparr>)"
| "on_event (ConnectionStatus status) s =
     bind_err (get_prop status ''connected'') (\<lambda>c. Inr (s\<lparr>connected := c\<rparr>))"
| "on_event (Error errorData) s =
     bind_err (get_prop errorData ''message'') (\<lambda>m. Inr (s\<lparr>error := m\<rparr>))"
| "on_event (ParameterUpdate updatedParams) s = Inr (s\<lparr>params := updatedParams\<rparr>)"

text \<open>Delivery of one event: an exception thrown by the handler leaves the state as it
  was.\<close>

definition deliver :: "event \<Rightarrow> app_state \<Rightarrow> app_state" where
  "deliver ev s = (case on_event ev s of Inl _ \<Rightarrow> s | Inr s' \<Rightarrow> s')"

definition deliver_all :: "event list \<Rightarrow> app_state \<Rightarrow> app_state" where
  "deliver_all evs s = fold deliver evs s"

subsection \<open>Local edits\<close>

text \<open>The part of a DOM change event that \<open>handleParamChange\<close> reads: the \<open>name\<close>
  and the \<open>value\<close> of \<open>e.target\<close>, both strings for a form control.\<close>

record change_target =
  target_name :: string
  target_value :: string

text \<open>The guard \<open>socket && socket.connected\<close>.\<close>

definition connection_open :: "app_state \<Rightarrow> bool" where
  "connection_open s = (case socket s of None \<Rightarrow> False | Some k \<Rightarrow> sock_connected k)"

text \<open>
  The edit \<open>{...prev, [name]: coerced}\<close> keeps the position of a key that is present
  and puts a new key last. JavaScript enumerates integer-like keys first; that order is
  not modelled, and nothing in the dashboard reads the order of the keys.
\<close>

definition handleParamChange :: "change_target \<Rightarrow> app_state \<Rightarrow> app_state" where
  "handleParamChange target s =
     (let name = target_name target;
          val = target_value target;
          s1 = s\<lparr>params :=
                 JObj (AList.update name
                        (if name \<in> set [''quantity'', ''volatility'']
                         then JNum (parseFloat val) else JStr val)
                        (own_props (params s)))\<rparr>
      in if connection_open s1
         then s1\<lparr>socket :=
                 map_option (emit ''parameter_update'' (JObj [(name, JStr val)])) (socket s1)\<rparr>
         else s1)"

text \<open>Everything \<open>App\<close> has sent so far.\<close>

definition outbox :: "app_state \<Rightarrow> (string \<times> jsval) list" where
  "outbox s = (case socket s of None \<Rightarrow> [] | Some k \<Rightarrow> emitted k)"

text \<open>
  One step of the event loop: an inbound event, a local edit, or the transport library
  writing the \<open>connected\<close> property of the socket object.
\<close>

datatype action = Inbound event | Edit change_target | Transport bool

fun step :: "action \<Rightarrow> app_state \<Rightarrow> app_state" where
  "step (Inbound ev) s = deliver ev s"
| "step (Edit target) s = handleParamChange target s"
| "step (Transport b) s = s\<lparr>socket := map_option (\<lambda>k. k\<lparr>sock_connected := b\<rparr>) (socket s)\<rparr>"

definition run :: "action list \<Rightarrow> app_state \<Rightarrow> app_state" where
  "run acts s = fold step acts s"


section \<open>The views\<close>

text \<open>
  The three components are pure functions of their props. What they render is modelled
  as data: a piece of text is a list of parts, where a part is literal text, a value
  placed in the text (\<open>${v}\<close> or \<open>{v}\<close>), or a number formatted by
  \<open>toFixed\<close>. Number arithmetic and formatting stay symbolic. The clock
  (\<open>new Date().toLocaleTimeString()\<close>) is a parameter.
\<close>

datatype numexp =
    Num jsnum
  | ToNumber jsval
  | Times numexp numexp
  | Over numexp numexp

datatype part = Lit string | Val jsval | Fixed numexp nat

subsection \<open>OrderbookStatus.jsx\<close>

definition getStatusClass :: "jsval \<Rightarrow> jsval \<Rightarrow> string" where
  "getStatusClass connected_prop error_prop =
     (if truthy error_prop then ''status-error''
      else if truthy connected_prop then ''status-connected''
      else ''status-disconnected'')"

definition getStatusText :: "string \<Rightarrow> jsval \<Rightarrow> jsval \<Rightarrow> jsval \<Rightarrow> part list" where
  "getStatusText now connected_prop orderbook_prop error_prop =
     (if truthy error_prop then [Lit ''Error: '', Val error_prop]
      else if truthy connected_prop then
        (if truthy orderbook_prop then [Lit ''Connected - Last update: '', Lit now]
         else [Lit ''Connected - Waiting for data...''])
      else [Lit ''Disconnected from server''])"

record orderbook_info =
  info_symbol :: jsval
  askCount :: jsval
  bidCount :: jsval

text \<open>The reads below are on truthy values, so none of them throws.\<close>

definition prop_or_undefined :: "jsval \<Rightarrow> string \<Rightarrow> jsval" where
  "prop_or_undefined v k = (case get_prop v k of Inr x \<Rightarrow> x | Inl _ \<Rightarrow> JUndefined)"

definition getOrderbookInfo :: "jsval \<Rightarrow> jsval \<Rightarrow> orderbook_info option" where
  "getOrderbookInfo connected_prop orderbook_prop =
     (if \<not> truthy orderbook_prop \<or> \<not> truthy connected_prop then None
      else
        (let asks = prop_or_undefined orderbook_prop ''asks'';
             bids = prop_or_undefined orderbook_prop ''bids''
         in Some \<lparr>info_symbol = prop_or_undefined orderbook_prop ''symbol'',
                 askCount = (if truthy asks then prop_or_undefined asks ''length''
                             else JNum (Fin 0)),
                 bidCount = (if truthy bids then prop_or_undefined bids ''length''
                             else JNum (Fin 0))\<rparr>))"

record status_view =
  className :: string
  status_text :: "part list"
  orderbook_span :: "orderbook_info option"

definition OrderbookStatus :: "string \<Rightarrow> jsval \<Rightarrow> jsval \<Rightarrow> jsval \<Rightarrow> status_view" where
  "OrderbookStatus now connected_prop orderbook_prop error_prop =
     \<lparr>className = ''status-bar '' @ getStatusClass connected_prop error_prop,
      status_text = getStatusText now connected_prop orderbook_prop error_prop,
      orderbook_span = getOrderbookInfo connected_prop orderbook_prop\<rparr>"

subsection \<open>InputPanel.jsx\<close>

record control =
  tag :: string
  control_name :: string
  control_value :: jsval
  disabled :: bool
  choices :: "string list"

record input_view =
  controls :: "control list"
  notice :: "string option"

definition InputPanel :: "jsval \<Rightarrow> jsval \<Rightarrow> js_error + input_view" where
  "InputPanel params_prop connected_prop =
     bind_err (get_prop params_prop ''exchange'') (\<lambda>exchange.
     bind_err (get_prop params_prop ''symbol'') (\<lambda>symbol.
     bind_err (get_prop params_prop ''order_type'') (\<lambda>order_type.
     bind_err (get_prop params_prop ''quantity'') (\<lambda>quantity.
     bind_err (get_prop params_prop ''volatility'') (\<lambda>volatility.
     bind_err (get_prop params_prop ''fee_tier'') (\<lambda>fee_tier.
       Inr \<lparr>controls =
              [\<lparr>tag = ''select'', control_name = ''exchange'', control_value = exchange,
                disabled = (\<not> truthy connected_prop), choices = [''OKX'']\<rparr>,
               \<lparr>tag = ''select'', control_name = ''symbol'', control_value = symbol,
                disabled = (\<not> truthy connected_prop), choices = [''BTC-USDT-SWAP'']\<rparr>,
               \<lparr>tag = ''select'', control_name = ''order_type'', control_value = order_type,
                disabled = (\<not> truthy connected_prop), choices = [''market'', ''limit'']\<rparr>,
               \<lparr>tag = ''input'', control_name = ''quantity'', control_value = quantity,
                disabled = (\<not> truthy connected_prop), choices = []\<rparr>,
               \<lparr>tag = ''input'', control_name = ''volatility'', control_value = volatility,
                disabled = (\<not> truthy connected_prop), choices = []\<rparr>,
               \<lparr>tag = ''select'', control_name = ''fee_tier'', control_value = fee_tier,
                disabled = (\<not> truthy connected_prop),
                choices = [''VIP0'', ''VIP1'', ''VIP2'', ''VIP3'', ''VIP4'', ''VIP5'']\<rparr>],
            notice =
              (if \<not> truthy connected_prop
               then Some ''Disconnected from server. Parameters cannot be changed.''
               else None)\<rparr>))))))"

text \<open>
  What the browser does with the rendered form: a change of the control called \<open>nm\<close>
  to the text \<open>v\<close> reaches \<open>onChange\<close> only when that control exists and is not
  disabled.
\<close>

definition user_change :: "input_view \<Rightarrow> string \<Rightarrow> string \<Rightarrow> change_target option" where
  "user_change view nm v =
     (case find (\<lambda>c. control_name c = nm) (controls view) of
        None \<Rightarrow> None
      | Some c \<Rightarrow> if disabled c then None else Some \<lparr>target_name = nm, target_value = v\<rparr>)"

subsection \<open>OutputPanel.jsx\<close>

text \<open>\<open>v.toFixed(d)\<close>: only a number has the method; on any other value the call
  throws.\<close>

definition toFixed :: "jsval \<Rightarrow> nat \<Rightarrow> js_error + jsnum" where
  "toFixed v d = (case v of JNum n \<Rightarrow> Inr n | _ \<Rightarrow> Inl TypeError)"

definition formatCurrency :: "jsval \<Rightarrow> js_error + part list" where
  "formatCurrency v = bind_err (toFixed v 6) (\<lambda>n. Inr [Lit ''$'', Fixed (Num n) 6])"

definition formatBps :: "jsval \<Rightarrow> js_error + part list" where
  "formatBps bps =
     bind_err (toFixed bps 6) (\<lambda>n.
       Inr [Fixed (Num n) 6, Lit '' bps ('',
            Fixed (Over (Num n) (Num (Fin 10000))) 7, Lit ''%)''])"

text \<open>\<open>a.b.c\<close>: two reads, either of which may throw.\<close>

definition get_path :: "jsval \<Rightarrow> string \<Rightarrow> string \<Rightarrow> js_error + jsval" where
  "get_path v k1 k2 = bind_err (get_prop v k1) (\<lambda>w. get_prop w k2)"

definition em_dash :: string where
  "em_dash = [CHR '' '', CHR 0xE2, CHR 0x80, CHR 0x94, CHR '' '']"

datatype output_view =
    Waiting
  | AnalyticsError jsval
  | Results "(string \<times> part list) list" string

definition OutputPanel :: "string \<Rightarrow> jsval \<Rightarrow> js_error + output_view" where
  "OutputPanel now analyticsResult_prop =
     (if \<not> truthy analyticsResult_prop then Inr Waiting
      else if truthy (prop_or_undefined analyticsResult_prop ''error'')
      then Inr (AnalyticsError (prop_or_undefined analyticsResult_prop ''error''))
      else
        bind_err (bind_err (get_path analyticsResult_prop ''slippage'' ''bps'') formatBps) (\<lambda>slip_bps.
        bind_err (bind_err (get_path analyticsResult_prop ''slippage'' ''cost'') formatCurrency) (\<lambda>slip_cost.
        bind_err (bind_err (get_path analyticsResult_prop ''fees'' ''amount'') formatCurrency) (\<lambda>fee_amount.
        bind_err (get_path analyticsResult_prop ''fees'' ''weighted_rate'') (\<lambda>rate.
        bind_err (bind_err (get_path analyticsResult_prop ''market_impact'' ''total_bps'') formatBps) (\<lambda>impact_bps.
        bind_err (bind_err (get_path analyticsResult_prop ''market_impact'' ''cost'') formatCurrency) (\<lambda>impact_cost.
        bind_err (bind_err (get_path analyticsResult_prop ''net_cost'' ''bps'') formatBps) (\<lambda>net_bps.
        bind_err (bind_err (get_path analyticsResult_prop ''net_cost'' ''amount'') formatCurrency) (\<lambda>net_amount.
        bind_err (get_path analyticsResult_prop ''maker_taker'' ''maker_ratio'') (\<lambda>maker.
        bind_err (get_path analyticsResult_prop ''maker_taker'' ''taker_ratio'') (\<lambda>taker.
        bind_err (bind_err (get_path analyticsResult_prop ''latency'' ''processing_time_ms'')
                    (\<lambda>v. toFixed v 2)) (\<lambda>latency.
          Inr (Results
                [(''Expected Slippage:'', slip_bps @ [Lit em_dash] @ slip_cost),
                 (''Expected Fees:'',
                    fee_amount @ [Lit '' ('', Fixed (Times (ToNumber rate) (Num (Fin 100))) 2,
                                  Lit ''%)'']),
                 (''Expected Market Impact:'', impact_bps @ [Lit em_dash] @ impact_cost),
                 (''Net Cost:'', net_bps @ [Lit em_dash] @ net_amount),
                 (''Maker/Taker Proportion:'',
                    [Fixed (Times (ToNumber maker) (Num (Fin 100))) 1, Lit ''% / '',
                     Fixed (Times (ToNumber taker) (Num (Fin 100))) 1, Lit ''%'']),
                 (''Internal Latency:'', [Fixed (Num latency) 2, Lit '' ms''])]
                (''Last updated: '' @ now))))))))))))))"

text \<open>The render of \<open>App\<close>: the three views, from the state.\<close>

record app_view =
  status_bar :: status_view
  input_panel :: "js_error + input_view"
  output_panel :: "js_error + output_view"

definition App_render :: "string \<Rightarrow> app_state \<Rightarrow> app_view" where
  "App_render now s =
     \<lparr>status_bar = OrderbookStatus now (connected s) (orderbook s) (error s),
      input_panel = InputPanel (params s) (connected s),
      output_panel = OutputPanel now (analyticsResult s)\<rparr>"


section \<open>The specification's vocabulary\<close>

text \<open>
  The specification speaks of a three-valued ConnectionStatus. \<open>App\<close> stores a
  \<open>connected\<close> flag and an \<open>error\<close> message; the only three-way classification
  in the code is \<open>getStatusClass\<close>. The definitions of this section follow the
  specification's words, to be compared with the code's.
\<close>

datatype conn_status = StatusDisconnected | StatusConnected | StatusErrored

text \<open>The status the specification attaches to each connection-affecting event; a
  \<open>connection_status\<close> event whose handler throws is not processed.\<close>

fun spec_implied_status :: "event \<Rightarrow> conn_status option" where
  "spec_implied_status Connect = Some StatusConnected"
| "spec_implied_status Disconnect = Some StatusDisconnected"
| "spec_implied_status (ConnectError err) = Some StatusErrored"
| "spec_implied_status (ConnectionStatus status) =
     (case get_prop status ''connected'' of
        Inl _ \<Rightarrow> None
      | Inr c \<Rightarrow> Some (if truthy c then StatusConnected else StatusDisconnected))"
| "spec_implied_status _ = None"


fun spec_status_class :: "conn_status \<Rightarrow> string" where
  "spec_status_class StatusDisconnected = ''status-disconnected''"
| "spec_status_class StatusConnected = ''status-connected''"
| "spec_status_class StatusErrored = ''status-error''"





text \<open>The type invariant of Parameters: what \<open>typeof\<close> says of the six fields.\<close>

definition field_type :: "jsval \<Rightarrow> string \<Rightarrow> string option" where
  "field_type p k = (case get_prop p k of Inl _ \<Rightarrow> None | Inr v \<Rightarrow> Some (typeof v))"

definition params_typed :: "jsval \<Rightarrow> bool" where
  "params_typed p =
     (map (field_type p)
        [''quantity'', ''volatility'', ''exchange'', ''symbol'', ''order_type'', ''fee_tier'']
      = [Some ''number'', Some ''number'',
         Some ''string'', Some ''string'', Some ''string'', Some ''string''])"

text \<open>An action whose server-pushed Parameters, if it carries any, satisfy the type
  invariant.\<close>

fun payload_typed :: "action \<Rightarrow> bool" where
  "payload_typed (Inbound (ParameterUpdate p)) = params_typed p"
| "payload_typed _ = True"


section \<open>Basic facts\<close>

lemma parseFloat_250: "parseFloat ''250'' = Fin 250"
  by code_simp

lemma get_prop_JObj:
  "get_prop (JObj kvs) k = Inr (case map_of kvs k of Some x \<Rightarrow> x | None \<Rightarrow> JUndefined)"
  by (simp add: get_prop_def own_props_def)

lemma get_prop_own:
  "k \<noteq> ''length'' \<Longrightarrow> get_prop p k = Inr v \<Longrightarrow>
     (case map_of (own_props p) k of Some x \<Rightarrow> x | None \<Rightarrow> JUndefined) = v"
  by (cases p) (auto simp: get_prop_def own_props_def)









lemma params_deliver:
  "params (deliver ev s) = (case ev of ParameterUpdate p \<Rightarrow> p | _ \<Rightarrow> params s)"
  by (cases ev) (simp_all add: deliver_def bind_err_def split: sum.splits)

lemma params_handleParamChange:
  "params (handleParamChange t s) =
     JObj (AList.update (target_name t)
            (if target_name t \<in> set [''quantity'', ''volatility'']
             then JNum (parseFloat (target_value t)) else JStr (target_value t))
            (own_props (params s)))"
  by (simp add: handleParamChange_def Let_def)

lemma outbox_handleParamChange:
  "outbox (handleParamChange t s) =
     (if connection_open s
      then outbox s @ [(''parameter_update'', JObj [(target_name t, JStr (target_value t))])]
      else outbox s)"
  by (simp add: handleParamChange_def Let_def outbox_def connection_open_def emit_def
           split: option.splits)

lemma frame_handleParamChange:
  "orderbook (handleParamChange t s) = orderbook s"
  "analyticsResult (handleParamChange t s) = analyticsResult s"
  "connected (handleParamChange t s) = connected s"
  "error (handleParamChange t s) = error s"
  by (simp_all add: handleParamChange_def Let_def)



lemma field_type_edit:
  assumes "k \<noteq> ''length''" and "field_type (params s) k = Some ty"
  shows "field_type (params (handleParamChange t s)) k =
           (if k = target_name t
            then Some (if k \<in> set [''quantity'', ''volatility''] then ''number'' else ''string'')
            else Some ty)"
proof -
  from assms(2) obtain v where v: "get_prop (params s) k = Inr v" and ty: "ty = typeof v"
    by (auto simp: field_type_def split: sum.splits)
  from get_prop_own [OF assms(1) v] show ?thesis
    by (auto simp: field_type_def params_handleParamChange get_prop_JObj update_conv' ty)
qed

lemma params_typed_edit:
  assumes "params_typed (params s)"
  shows "params_typed (params (handleParamChange t s))"
  using assms unfolding params_typed_def
  by (auto simp: field_type_edit)

lemma params_typed_step:
  assumes "params_typed (params s)" and "payload_typed a"
  shows "params_typed (params (step a s))"
proof (cases a)
  case (Inbound ev)
  with assms show ?thesis by (cases ev) (simp_all add: params_deliver)
next
  case (Edit t)
  with assms show ?thesis by (simp add: params_typed_edit)
next
  case (Transport b)
  with assms show ?thesis by simp
qed


section \<open>Connection status\<close>




text \<open>
  Claim C2, as the code has it. For every error object \<open>err\<close> and every state, whether
  or not a connect had succeeded before, the \<open>connect_error(err)\<close> handler does not
  throw, sets the \<open>connected\<close> flag to false and sets ErrorMessage to the fixed text
  \<open>WebSocket connection failed\<close>, so that the status shown is the error status; the
  snapshots, the Parameters and the socket are left as they were. The payload \<open>err\<close>
  is only logged.
\<close>

theorem connect_error_fixed_message:
  "on_event (ConnectError err) s = Inr (deliver (ConnectError err) s)
   \<and> error (deliver (ConnectError err) s) = JStr ''WebSocket connection failed''
   \<and> connected (deliver (ConnectError err) s) = JBool False
   \<and> getStatusClass (connected (deliver (ConnectError err) s))
        (error (deliver (ConnectError err) s)) = ''status-error''
   \<and> orderbook (deliver (ConnectError err) s) = orderbook s
   \<and> analyticsResult (deliver (ConnectError err) s) = analyticsResult s
   \<and> params (deliver (ConnectError err) s) = params s
   \<and> socket (deliver (ConnectError err) s) = socket s"
  by (simp add: deliver_def getStatusClass_def)

text \<open>
  The claim as written fails: two error objects with different messages leave the same
  ErrorMessage, which is neither the payload nor its \<open>message\<close>.
\<close>

theorem connect_error_ignores_err_counterexample:
  "error (deliver (ConnectError (JObj [(''message'', JStr ''xhr poll error'')]))
            (initSocket Map.empty initial_state))
     = JStr ''WebSocket connection failed''
   \<and> error (deliver (ConnectError (JObj [(''message'', JStr ''timeout'')]))
            (initSocket Map.empty initial_state))
     = JStr ''WebSocket connection failed''
   \<and> get_prop (JObj [(''message'', JStr ''timeout'')]) ''message'' = Inr (JStr ''timeout'')
   \<and> error (deliver (ConnectError (JObj [(''message'', JStr ''timeout'')]))
            (initSocket Map.empty initial_state))
     \<noteq> JStr ''timeout''
   \<and> error (deliver (ConnectError (JObj [(''message'', JStr ''timeout'')]))
            (initSocket Map.empty initial_state))
     \<noteq> JObj [(''message'', JStr ''timeout'')]"
  by (simp add: deliver_def get_prop_JObj)

text \<open>
  Claim C8, as the code has it. Processing a \<open>disconnect\<close> event does not throw, sets
  the stored connection flag to false, and leaves OrderbookSnapshot, AnalyticsResult,
  ErrorMessage and Parameters (and the socket) unchanged. The three-valued status shown
  afterwards is disconnected when no ErrorMessage is held, and remains the error status
  when one is held, since ErrorMessage is left as it was.
\<close>

theorem disconnect_frame:
  "on_event Disconnect s = Inr (deliver Disconnect s)
   \<and> connected (deliver Disconnect s) = JBool False
   \<and> orderbook (deliver Disconnect s) = orderbook s
   \<and> analyticsResult (deliver Disconnect s) = analyticsResult s
   \<and> error (deliver Disconnect s) = error s
   \<and> params (deliver Disconnect s) = params s
   \<and> socket (deliver Disconnect s) = socket s
   \<and> getStatusClass (connected (deliver Disconnect s)) (error (deliver Disconnect s))
       = (if truthy (error s) then ''status-error'' else ''status-disconnected'')"
  by (simp add: deliver_def getStatusClass_def)

text \<open>An instance with no ErrorMessage held: connected, then disconnected.\<close>

theorem disconnect_frame_witness:
  "getStatusClass (connected (deliver Connect (initSocket Map.empty initial_state)))
     (error (deliver Connect (initSocket Map.empty initial_state))) = ''status-connected''
   \<and> connected (deliver Disconnect (deliver Connect (initSocket Map.empty initial_state)))
     = JBool False
   \<and> getStatusClass
       (connected (deliver Disconnect (deliver Connect (initSocket Map.empty initial_state))))
       (error (deliver Disconnect (deliver Connect (initSocket Map.empty initial_state))))
     = ''status-disconnected''"
  using disconnect_frame [of "deliver Connect (initSocket Map.empty initial_state)"]
  by (simp add: deliver_def getStatusClass_def)

text \<open>
  The claim as written fails. While connected, the server reports an application error;
  the \<open>disconnect\<close> that follows implies the status disconnected, and the status shown
  is the error status.
\<close>

theorem disconnect_status_counterexample:
  "getStatusClass
     (connected (deliver Disconnect
        (deliver (Error (JObj [(''message'', JStr ''rate limited'')]))
           (deliver Connect (initSocket Map.empty initial_state)))))
     (error (deliver Disconnect
        (deliver (Error (JObj [(''message'', JStr ''rate limited'')]))
           (deliver Connect (initSocket Map.empty initial_state)))))
     = ''status-error''
   \<and> spec_implied_status Disconnect = Some StatusDisconnected
   \<and> spec_status_class StatusDisconnected = ''status-disconnected''
   \<and> connected (deliver Disconnect
        (deliver (Error (JObj [(''message'', JStr ''rate limited'')]))
           (deliver Connect (initSocket Map.empty initial_state))))
     = JBool False"
  by (simp add: deliver_def getStatusClass_def get_prop_JObj bind_err_def)

text \<open>
  Claim C9. For every payload and every state, \<open>orderbook_update(data)\<close> replaces
  OrderbookSnapshot by \<open>data\<close> and \<open>analytics_update(data)\<close> replaces AnalyticsResult
  by \<open>data\<close>; neither handler throws, and neither changes the connection flag,
  ErrorMessage, Parameters, the socket or the other snapshot, so the status shown is
  unchanged too.
\<close>

theorem data_updates_frame:
  "on_event (OrderbookUpdate data) s = Inr (deliver (OrderbookUpdate data) s)
   \<and> orderbook (deliver (OrderbookUpdate data) s) = data
   \<and> analyticsResult (deliver (OrderbookUpdate data) s) = analyticsResult s
   \<and> connected (deliver (OrderbookUpdate data) s) = connected s
   \<and> error (deliver (OrderbookUpdate data) s) = error s
   \<and> params (deliver (OrderbookUpdate data) s) = params s
   \<and> socket (deliver (OrderbookUpdate data) s) = socket s
   \<and> on_event (AnalyticsUpdate data) s = Inr (deliver (AnalyticsUpdate data) s)
   \<and> analyticsResult (deliver (AnalyticsUpdate data) s) = data
   \<and> orderbook (deliver (AnalyticsUpdate data) s) = orderbook s
   \<and> connected (deliver (AnalyticsUpdate data) s) = connected s
   \<and> error (deliver (AnalyticsUpdate data) s) = error s
   \<and> params (deliver (AnalyticsUpdate data) s) = params s
   \<and> socket (deliver (AnalyticsUpdate data) s) = socket s
   \<and> getStatusClass (connected (deliver (OrderbookUpdate data) s))
        (error (deliver (OrderbookUpdate data) s)) = getStatusClass (connected s) (error s)
   \<and> getStatusClass (connected (deliver (AnalyticsUpdate data) s))
        (error (deliver (AnalyticsUpdate data) s)) = getStatusClass (connected s) (error s)"
  by (simp add: deliver_def)

section \<open>The endpoint\<close>

text \<open>
  Claim C5, at a failing input. With \<open>VITE_SOCKET_URL\<close> set to
  \<open>http://localhost:5000\<close> in the deployment configuration, the address the socket is
  created for is the text \<open>import.meta.env.VITE_SOCKET_URL\<close> itself, not the
  configured value.
\<close>

theorem socket_address_is_literal:
  "map_option url
     (socket (initSocket [''VITE_SOCKET_URL'' \<mapsto> ''http://localhost:5000''] initial_state))
     = Some ''import.meta.env.VITE_SOCKET_URL''
   \<and> [''VITE_SOCKET_URL'' \<mapsto> ''http://localhost:5000''] ''VITE_SOCKET_URL''
     = Some ''http://localhost:5000''"
  by (simp add: initSocket_def io_def)


section \<open>Local edits\<close>

text \<open>
  Claim C3. For every state in which the connection is open (the socket exists and its
  \<open>connected\<close> property is true), the edit of field \<open>quantity\<close> with raw value
  \<open>"250"\<close> makes \<open>Parameters.quantity\<close> the number 250, leaves every other
  property of Parameters as it was (the other five fields among them), and emits exactly
  one outbound event: \<open>parameter_update\<close> with the single-key payload
  \<open>{quantity: "250"}\<close>, the raw string.
\<close>

theorem edit_quantity_250_connected:
  assumes "connection_open s"
  shows "get_prop (params (handleParamChange
                    \<lparr>target_name = ''quantity'', target_value = ''250''\<rparr> s)) ''quantity''
           = Inr (JNum (Fin 250))
    \<and> (\<forall>f. f \<noteq> ''quantity'' \<longrightarrow>
          map_of (own_props (params (handleParamChange
                    \<lparr>target_name = ''quantity'', target_value = ''250''\<rparr> s))) f
          = map_of (own_props (params s)) f)
    \<and> outbox (handleParamChange \<lparr>target_name = ''quantity'', target_value = ''250''\<rparr> s)
        = outbox s @ [(''parameter_update'', JObj [(''quantity'', JStr ''250'')])]"
  using assms
  by (simp add: params_handleParamChange outbox_handleParamChange get_prop_JObj
        update_conv' parseFloat_250 own_props_def)

theorem edit_quantity_250_connected_witness:
  "connection_open (step (Transport True) (initSocket Map.empty initial_state))
   \<and> params (handleParamChange \<lparr>target_name = ''quantity'', target_value = ''250''\<rparr>
        (step (Transport True) (initSocket Map.empty initial_state)))
     = JObj [(''exchange'', JStr ''OKX''),
             (''symbol'', JStr ''BTC-USDT-SWAP''),
             (''order_type'', JStr ''market''),
             (''quantity'', JNum (Fin 250)),
             (''volatility'', JNum (Fin (3 / 10))),
             (''fee_tier'', JStr ''VIP0'')]
   \<and> outbox (handleParamChange \<lparr>target_name = ''quantity'', target_value = ''250''\<rparr>
        (step (Transport True) (initSocket Map.empty initial_state)))
     = [(''parameter_update'', JObj [(''quantity'', JStr ''250'')])]"
proof -
  have opened: "connection_open (step (Transport True) (initSocket Map.empty initial_state))"
    by (simp add: connection_open_def initSocket_def io_def)
  have sent: "outbox (step (Transport True) (initSocket Map.empty initial_state)) = []"
    by (simp add: outbox_def initSocket_def io_def)
  have stored: "params (handleParamChange \<lparr>target_name = ''quantity'', target_value = ''250''\<rparr>
        (step (Transport True) (initSocket Map.empty initial_state)))
     = JObj [(''exchange'', JStr ''OKX''),
             (''symbol'', JStr ''BTC-USDT-SWAP''),
             (''order_type'', JStr ''market''),
             (''quantity'', JNum (Fin 250)),
             (''volatility'', JNum (Fin (3 / 10))),
             (''fee_tier'', JStr ''VIP0'')]"
    by (simp add: params_handleParamChange parseFloat_250 own_props_def initSocket_def
          initial_state_def)
  from edit_quantity_250_connected [OF opened] opened sent stored show ?thesis
    by simp
qed



section \<open>The type invariant of Parameters\<close>

text \<open>
  Claim C6, as the code has it. Starting from Parameters whose \<open>quantity\<close> and
  \<open>volatility\<close> are numbers and whose \<open>exchange\<close>, \<open>symbol\<close>, \<open>order_type\<close>
  and \<open>fee_tier\<close> are strings (the initial Parameters are so), every interleaving of
  local edits, inbound events and transport changes keeps them so, provided every
  server-pushed \<open>parameter_update\<close> payload is itself typed that way. The handler
  stores the payload unchecked.
\<close>

theorem params_typed_invariant:
  "params_typed (params s) \<Longrightarrow> list_all payload_typed acts \<Longrightarrow>
     params_typed (params (run acts s))"
proof (induction acts arbitrary: s)
  case Nil
  then show ?case by (simp add: run_def)
next
  case (Cons a acts)
  from Cons.prems have "params_typed (params (step a s))"
    by (simp add: params_typed_step)
  moreover from Cons.prems have "list_all payload_typed acts"
    by simp
  ultimately have "params_typed (params (run acts (step a s)))"
    by (rule Cons.IH)
  then show ?case by (simp add: run_def)
qed

theorem params_typed_invariant_witness:
  "params_typed (params (initSocket Map.empty initial_state))
   \<and> list_all payload_typed
       [Transport True, Inbound Connect,
        Edit \<lparr>target_name = ''quantity'', target_value = ''abc''\<rparr>,
        Inbound (ParameterUpdate
          (JObj [(''exchange'', JStr ''OKX''), (''symbol'', JStr ''BTC-USDT-SWAP''),
                 (''order_type'', JStr ''limit''), (''quantity'', JNum (Fin 500)),
                 (''volatility'', JNum (Fin (1 / 2))), (''fee_tier'', JStr ''VIP1'')])),
        Edit \<lparr>target_name = ''symbol'', target_value = ''42''\<rparr>]
   \<and> params_typed (params (run
       [Transport True, Inbound Connect,
        Edit \<lparr>target_name = ''quantity'', target_value = ''abc''\<rparr>,
        Inbound (ParameterUpdate
          (JObj [(''exchange'', JStr ''OKX''), (''symbol'', JStr ''BTC-USDT-SWAP''),
                 (''order_type'', JStr ''limit''), (''quantity'', JNum (Fin 500)),
                 (''volatility'', JNum (Fin (1 / 2))), (''fee_tier'', JStr ''VIP1'')])),
        Edit \<lparr>target_name = ''symbol'', target_value = ''42''\<rparr>]
       (initSocket Map.empty initial_state)))"
proof -
  have start: "params_typed (params (initSocket Map.empty initial_state))"
    by (simp add: params_typed_def field_type_def initSocket_def initial_state_def get_prop_JObj)
  have pushed: "list_all payload_typed
       [Transport True, Inbound Connect,
        Edit \<lparr>target_name = ''quantity'', target_value = ''abc''\<rparr>,
        Inbound (ParameterUpdate
          (JObj [(''exchange'', JStr ''OKX''), (''symbol'', JStr ''BTC-USDT-SWAP''),
                 (''order_type'', JStr ''limit''), (''quantity'', JNum (Fin 500)),
                 (''volatility'', JNum (Fin (1 / 2))), (''fee_tier'', JStr ''VIP1'')])),
        Edit \<lparr>target_name = ''symbol'', target_value = ''42''\<rparr>]"
    by (simp add: params_typed_def field_type_def get_prop_JObj)
  from params_typed_invariant [OF start pushed] start pushed show ?thesis
    by simp
qed

text \<open>
  The claim as written fails: the initial Parameters are typed, and after the local edit
  of \<open>quantity\<close> to \<open>"250"\<close> and a server correction that carries \<open>quantity\<close> as
  the string \<open>"250"\<close>, the stored \<open>quantity\<close> is a string.
\<close>

theorem params_typed_counterexample:
  "params_typed (params (initSocket Map.empty initial_state))
   \<and> field_type (params (run
        [Edit \<lparr>target_name = ''quantity'', target_value = ''250''\<rparr>,
         Inbound (ParameterUpdate
           (JObj [(''exchange'', JStr ''OKX''), (''symbol'', JStr ''BTC-USDT-SWAP''),
                  (''order_type'', JStr ''market''), (''quantity'', JStr ''250''),
                  (''volatility'', JNum (Fin (3 / 10))), (''fee_tier'', JStr ''VIP0'')]))]
        (initSocket Map.empty initial_state))) ''quantity'' = Some ''string''
   \<and> \<not> params_typed (params (run
        [Edit \<lparr>target_name = ''quantity'', target_value = ''250''\<rparr>,
         Inbound (ParameterUpdate
           (JObj [(''exchange'', JStr ''OKX''), (''symbol'', JStr ''BTC-USDT-SWAP''),
                  (''order_type'', JStr ''market''), (''quantity'', JStr ''250''),
                  (''volatility'', JNum (Fin (3 / 10))), (''fee_tier'', JStr ''VIP0'')]))]
        (initSocket Map.empty initial_state)))"
  by (simp add: run_def params_deliver params_typed_def field_type_def get_prop_JObj
        initSocket_def initial_state_def)


section \<open>Rendering after a disconnect\<close>

lemma bind_err_neq: "(\<And>x. f x \<noteq> Inr y) \<Longrightarrow> bind_err m f \<noteq> Inr y"
  by (cases m) (simp_all add: bind_err_def)

lemma OutputPanel_not_Waiting:
  assumes "truthy r"
  shows "OutputPanel now r \<noteq> Inr Waiting"
proof (cases "truthy (prop_or_undefined r ''error'')")
  case True
  with assms show ?thesis by (simp add: OutputPanel_def)
next
  case False
  with assms show ?thesis
    unfolding OutputPanel_def
    by (simp only: if_True if_False not_True_eq_False) (intro bind_err_neq, simp)
qed

text \<open>
  Claim C4, as the code has it. After a \<open>disconnect\<close> event the state still holds the
  last-received OrderbookSnapshot and AnalyticsResult, and the analytics view renders
  exactly what it rendered before: the last-received AnalyticsResult, never the waiting
  placeholder when a result had arrived. The status view, however, renders no orderbook
  information (neither the symbol nor the bid and ask counts): its text is
  \<open>Disconnected from server\<close>, or the error text when an ErrorMessage is held.
\<close>

theorem disconnect_render:
  "orderbook (deliver Disconnect s) = orderbook s
   \<and> analyticsResult (deliver Disconnect s) = analyticsResult s
   \<and> output_panel (App_render now (deliver Disconnect s)) = output_panel (App_render now s)
   \<and> (truthy (analyticsResult s) \<longrightarrow>
        output_panel (App_render now (deliver Disconnect s)) \<noteq> Inr Waiting)
   \<and> orderbook_span (status_bar (App_render now (deliver Disconnect s))) = None
   \<and> status_text (status_bar (App_render now (deliver Disconnect s)))
       = (if truthy (error s) then [Lit ''Error: '', Val (error s)]
          else [Lit ''Disconnected from server''])"
  by (simp add: deliver_def App_render_def OrderbookStatus_def getOrderbookInfo_def
        getStatusText_def OutputPanel_not_Waiting)

theorem disconnect_render_witness:
  "truthy (analyticsResult (deliver_all
       [Connect,
        OrderbookUpdate (JObj [(''symbol'', JStr ''BTC-USDT-SWAP''),
                               (''bids'', JArr [JArr [JStr ''50000'', JStr ''1'']]),
                               (''asks'', JArr [JArr [JStr ''50001'', JStr ''2''],
                                                JArr [JStr ''50002'', JStr ''3'']])]),
        AnalyticsUpdate (JObj [(''error'', JStr ''no data'')])]
       (initSocket Map.empty initial_state)))
   \<and> output_panel (App_render ''12:00:00'' (deliver Disconnect (deliver_all
       [Connect,
        OrderbookUpdate (JObj [(''symbol'', JStr ''BTC-USDT-SWAP''),
                               (''bids'', JArr [JArr [JStr ''50000'', JStr ''1'']]),
                               (''asks'', JArr [JArr [JStr ''50001'', JStr ''2''],
                                                JArr [JStr ''50002'', JStr ''3'']])]),
        AnalyticsUpdate (JObj [(''error'', JStr ''no data'')])]
       (initSocket Map.empty initial_state))))
     = Inr (AnalyticsError (JStr ''no data''))
   \<and> status_text (status_bar (App_render ''12:00:00'' (deliver Disconnect (deliver_all
       [Connect,
        OrderbookUpdate (JObj [(''symbol'', JStr ''BTC-USDT-SWAP''),
                               (''bids'', JArr [JArr [JStr ''50000'', JStr ''1'']]),
                               (''asks'', JArr [JArr [JStr ''50001'', JStr ''2''],
                                                JArr [JStr ''50002'', JStr ''3'']])]),
        AnalyticsUpdate (JObj [(''error'', JStr ''no data'')])]
       (initSocket Map.empty initial_state)))))
     = [Lit ''Disconnected from server'']"
proof -
  have live: "deliver_all
       [Connect,
        OrderbookUpdate (JObj [(''symbol'', JStr ''BTC-USDT-SWAP''),
                               (''bids'', JArr [JArr [JStr ''50000'', JStr ''1'']]),
                               (''asks'', JArr [JArr [JStr ''50001'', JStr ''2''],
                                                JArr [JStr ''50002'', JStr ''3'']])]),
        AnalyticsUpdate (JObj [(''error'', JStr ''no data'')])]
       (initSocket Map.empty initial_state)
     = (initSocket Map.empty initial_state)
         \<lparr>connected := JBool True, error := JNull,
          orderbook := JObj [(''symbol'', JStr ''BTC-USDT-SWAP''),
                             (''bids'', JArr [JArr [JStr ''50000'', JStr ''1'']]),
                             (''asks'', JArr [JArr [JStr ''50001'', JStr ''2''],
                                              JArr [JStr ''50002'', JStr ''3'']])],
          analyticsResult := JObj [(''error'', JStr ''no data'')]\<rparr>"
    by (simp add: deliver_all_def deliver_def)
  have before: "output_panel (App_render ''12:00:00''
        ((initSocket Map.empty initial_state)
         \<lparr>connected := JBool True, error := JNull,
          orderbook := JObj [(''symbol'', JStr ''BTC-USDT-SWAP''),
                             (''bids'', JArr [JArr [JStr ''50000'', JStr ''1'']]),
                             (''asks'', JArr [JArr [JStr ''50001'', JStr ''2''],
                                              JArr [JStr ''50002'', JStr ''3'']])],
          analyticsResult := JObj [(''error'', JStr ''no data'')]\<rparr>))
      = Inr (AnalyticsError (JStr ''no data''))"
    by (simp add: App_render_def OutputPanel_def prop_or_undefined_def get_prop_JObj)
  from disconnect_render [of "deliver_all
       [Connect,
        OrderbookUpdate (JObj [(''symbol'', JStr ''BTC-USDT-SWAP''),
                               (''bids'', JArr [JArr [JStr ''50000'', JStr ''1'']]),
                               (''asks'', JArr [JArr [JStr ''50001'', JStr ''2''],
                                                JArr [JStr ''50002'', JStr ''3'']])]),
        AnalyticsUpdate (JObj [(''error'', JStr ''no data'')])]
       (initSocket Map.empty initial_state)" "''12:00:00''"] before
  show ?thesis
    by (simp add: live)
qed

text \<open>
  The claim as written fails. With a snapshot of two asks and one bid received while
  connected, the status view shows the symbol and the counts; after \<open>disconnect\<close> the
  snapshot is still in the state, and the status view shows nothing of it.
\<close>

theorem disconnect_hides_orderbook_counterexample:
  "orderbook_span (status_bar (App_render ''12:00:00'' (deliver_all
       [Connect,
        OrderbookUpdate (JObj [(''symbol'', JStr ''BTC-USDT-SWAP''),
                               (''bids'', JArr [JArr [JStr ''50000'', JStr ''1'']]),
                               (''asks'', JArr [JArr [JStr ''50001'', JStr ''2''],
                                                JArr [JStr ''50002'', JStr ''3'']])])]
       (initSocket Map.empty initial_state))))
     = Some \<lparr>info_symbol = JStr ''BTC-USDT-SWAP'',
             askCount = JNum (Fin 2), bidCount = JNum (Fin 1)\<rparr>
   \<and> orderbook (deliver_all
       [Connect,
        OrderbookUpdate (JObj [(''symbol'', JStr ''BTC-USDT-SWAP''),
                               (''bids'', JArr [JArr [JStr ''50000'', JStr ''1'']]),
                               (''asks'', JArr [JArr [JStr ''50001'', JStr ''2''],
                                                JArr [JStr ''50002'', JStr ''3'']])]),
        Disconnect]
       (initSocket Map.empty initial_state))
     = JObj [(''symbol'', JStr ''BTC-USDT-SWAP''),
             (''bids'', JArr [JArr [JStr ''50000'', JStr ''1'']]),
             (''asks'', JArr [JArr [JStr ''50001'', JStr ''2''],
                              JArr [JStr ''50002'', JStr ''3'']])]
   \<and> orderbook_span (status_bar (App_render ''12:00:00'' (deliver_all
       [Connect,
        OrderbookUpdate (JObj [(''symbol'', JStr ''BTC-USDT-SWAP''),
                               (''bids'', JArr [JArr [JStr ''50000'', JStr ''1'']]),
                               (''asks'', JArr [JArr [JStr ''50001'', JStr ''2''],
                                                JArr [JStr ''50002'', JStr ''3'']])]),
        Disconnect]
       (initSocket Map.empty initial_state))))
     = None"
  by (simp add: deliver_all_def deliver_def App_render_def OrderbookStatus_def
        getOrderbookInfo_def prop_or_undefined_def get_prop_def own_props_def)

section \<open>The parameter form while disconnected\<close>

text \<open>
  Claim C10. Whenever the parameter-editing view is rendered with a falsy \<open>connected\<close>
  prop (\<open>false\<close> in particular), it consists of the six controls \<open>exchange\<close>,
  \<open>symbol\<close>, \<open>order_type\<close>, \<open>quantity\<close>, \<open>volatility\<close> and \<open>fee_tier\<close>, every
  one of them disabled, together with the disconnected notice, so that no change of any
  control reaches the edit operation. The view renders for every Parameters value but
  \<open>null\<close> and \<open>undefined\<close>, on which reading a field throws and nothing is
  rendered.
\<close>

theorem input_panel_disabled:
  assumes "\<not> truthy c"
  shows
    "case InputPanel p c of
       Inl e \<Rightarrow> p = JNull \<or> p = JUndefined
     | Inr view \<Rightarrow>
         p \<noteq> JNull \<and> p \<noteq> JUndefined
         \<and> map control_name (controls view)
             = [''exchange'', ''symbol'', ''order_type'', ''quantity'', ''volatility'', ''fee_tier'']
         \<and> list_all disabled (controls view)
         \<and> notice view = Some ''Disconnected from server. Parameters cannot be changed.''
         \<and> (\<forall>nm v. user_change view nm v = None)"
  using assms
  by (cases p) (simp_all add: InputPanel_def bind_err_def get_prop_def user_change_def)

theorem input_panel_disabled_witness:
  "\<not> truthy (JBool False)
   \<and> map_sum id (\<lambda>view. (map disabled (controls view), notice view))
       (InputPanel (params initial_state) (JBool False))
     = Inr ([True, True, True, True, True, True],
            Some ''Disconnected from server. Parameters cannot be changed.'')
   \<and> map_sum id (\<lambda>view. user_change view ''quantity'' ''250'')
       (InputPanel (params initial_state) (JBool False)) = Inr None"
  using input_panel_disabled [of "JBool False" "params initial_state"]
  by (simp add: InputPanel_def bind_err_def get_prop_JObj initial_state_def user_change_def)

end
